theory Spec2Isabelle
  imports Main
begin

section \<open>Text\<close>

text \<open>
  A Python \<open>str\<close> is a sequence of code points. It is modelled as a \<open>string\<close> whose
  characters are the code points below 256; \<open>lower\<close>, \<open>isspace\<close> and \<open>strip\<close> are
  Python's \<open>str.lower\<close>, \<open>str.isspace\<close> and \<open>str.strip\<close> on that range.
\<close>

definition lower_char :: "char \<Rightarrow> char" where
  "lower_char c =
     (let n = (of_char c :: nat)
      in if (65 \<le> n \<and> n \<le> 90) \<or> (192 \<le> n \<and> n \<le> 222 \<and> n \<noteq> 215)
         then char_of (n + 32) else c)"

definition lower :: "string \<Rightarrow> string" where
  "lower s = map lower_char s"

fun startswith :: "string \<Rightarrow> string \<Rightarrow> bool" where
  "startswith [] s = True"
| "startswith (p # ps) [] = False"
| "startswith (p # ps) (c # cs) = (p = c \<and> startswith ps cs)"

text \<open>\<open>str_in p s\<close> is Python's \<open>p in s\<close> on strings: \<open>p\<close> occurs in \<open>s\<close> as a substring.\<close>

fun str_in :: "string \<Rightarrow> string \<Rightarrow> bool" where
  "str_in p [] = (p = [])"
| "str_in p (c # cs) = (startswith p (c # cs) \<or> str_in p cs)"





datatype platform = Posix | Windows



section \<open>Binary64 arithmetic of the poll loop\<close>

text \<open>
  \<open>max_wait\<close>, \<open>poll_interval\<close> and \<open>elapsed\<close> of \<open>deactivate_tunnel\<close> are Python
  floats, that is IEEE 754 binary64 values. A non-negative finite value is modelled as a
  pair \<open>(m, e)\<close> standing for \<open>m * 2 ^ e\<close>. Addition is exact addition followed by
  rounding to 53 significant bits, ties to even. The exponent range is not bounded: the
  values of the loop stay below 16, far from overflow and from the subnormal range.
\<close>

type_synonym binary64 = "int \<times> int"

fun bit_length :: "int \<Rightarrow> nat" where
  "bit_length m = (if m \<le> 0 then 0 else Suc (bit_length (m div 2)))"

declare bit_length.simps [simp del]

definition fl_round :: "int \<Rightarrow> int \<Rightarrow> binary64" where
  "fl_round m e =
     (let k = bit_length m - 53
      in if k = 0 then (m, e)
         else (let q = m div 2 ^ k; r = m mod 2 ^ k; h = 2 ^ (k - 1);
                   q' = (if r < h then q
                         else if h < r then q + 1
                         else if even q then q else q + 1)
               in (q', e + int k)))"

definition fl_add :: "binary64 \<Rightarrow> binary64 \<Rightarrow> binary64" where
  "fl_add x y =
     (case x of (m1, e1) \<Rightarrow> case y of (m2, e2) \<Rightarrow>
        (let e = min e1 e2
         in fl_round (m1 * 2 ^ nat (e1 - e) + m2 * 2 ^ nat (e2 - e)) e))"

definition fl_less :: "binary64 \<Rightarrow> binary64 \<Rightarrow> bool" where
  "fl_less x y =
     (case x of (m1, e1) \<Rightarrow> case y of (m2, e2) \<Rightarrow>
        (let e = min e1 e2
         in m1 * 2 ^ nat (e1 - e) < m2 * 2 ^ nat (e2 - e)))"

text \<open>The float literals of the source: \<open>8.0\<close>, \<open>0.8\<close> (the binary64 value nearest to
  4/5, \<open>0x1.999999999999ap-1\<close>), \<open>0.0\<close> and \<open>1.0\<close>.\<close>

definition max_wait :: binary64 where
  "max_wait = (8, 0)"

definition poll_interval :: binary64 where
  "poll_interval = (7205759403792794, - 53)"

definition fl_zero :: binary64 where
  "fl_zero = (0, 0)"

definition fl_one :: binary64 where
  "fl_one = (1, 0)"

section \<open>The environment\<close>

text \<open>
  The three persisted files are state of the model. Everything else the program talks to
  is the environment: the \<open>teleport\<close> module (\<open>generate_client_hint\<close>,
  \<open>get_device_token\<close>, \<open>connect_device\<close>), the external commands started with
  \<open>subprocess.run\<close>, \<open>os.remove\<close> and the dialogs. The environment is a state machine
  with an arbitrary state \<open>'e\<close>; each operation takes the state and returns its answer
  and the next state. A file of the model holds what is on disk, that is the text as
  written. Opening and reading the three files is taken to succeed. Writing a text that
  the encoding of the platform cannot encode raises \<open>UnicodeEncodeError\<close> and leaves
  the file empty, since \<open>open(..., 'w')\<close> has truncated it. \<open>os.remove\<close> may raise. The
  dialog calls are taken to return.
\<close>

datatype slot = UUID_FILE | TOKEN_FILE | CONFIG_PATH

text \<open>An exception, with the text \<open>str(e)\<close> gives for it. \<open>OtherException\<close> is any
  exception the code does not name, \<open>UnicodeDecodeError\<close> among them.\<close>

datatype exn = TimeoutExpired string | FileNotFoundError string | OtherException string

fun str_exn :: "exn \<Rightarrow> string" where
  "str_exn (TimeoutExpired m) = m"
| "str_exn (FileNotFoundError m) = m"
| "str_exn (OtherException m) = m"

text \<open>
  The standard error of a command as \<open>subprocess.run\<close> captures it. The \<open>wireguard\<close>
  commands are run without \<open>text=True\<close>, so it is a \<open>bytes\<close> object, which the code
  turns into text with \<open>e.stderr.decode()\<close>. It is represented by what that call does:
  \<open>Decodes s\<close> when the bytes are valid UTF-8 for the text \<open>s\<close>, \<open>Undecodable m\<close> when
  the call raises \<open>UnicodeDecodeError\<close> with \<open>str(e) = m\<close>.
\<close>

datatype captured = Decodes string | Undecodable string

text \<open>What \<open>subprocess.run\<close> without \<open>check\<close> does: it completes with a return code,
  the standard output and the standard error, or it raises.\<close>

datatype run_result = Completed int string captured | Raised exn

datatype event =
    Call_generate_client_hint
  | Call_get_device_token string string
  | Call_connect_device string
  | Run_uninstall
  | Run_install "string option"
  | Run_sc_query
  | Sleep binary64
  | Log_warning string
  | Remove slot
  | Askstring
  | Askyesno
  | Showinfo string string
  | Showerror string string

record 'e ext =
  platform :: platform
  encode_error :: "string \<Rightarrow> string option"
  generate_client_hint :: "'e \<Rightarrow> (string + string) \<times> 'e"
  get_device_token :: "string \<Rightarrow> string \<Rightarrow> 'e \<Rightarrow> (string + string) \<times> 'e"
  connect_device :: "string \<Rightarrow> 'e \<Rightarrow> (string + string) \<times> 'e"
  run_uninstall :: "'e \<Rightarrow> run_result \<times> 'e"
  run_install :: "string option \<Rightarrow> 'e \<Rightarrow> run_result \<times> 'e"
  run_sc_query :: "'e \<Rightarrow> run_result \<times> 'e"
  os_remove :: "slot \<Rightarrow> 'e \<Rightarrow> exn option \<times> 'e"
  askstring :: "'e \<Rightarrow> string option \<times> 'e"
  askyesno :: "'e \<Rightarrow> bool \<times> 'e"

text \<open>
  \<open>platform\<close> is the platform the program runs on. \<open>encode_error s\<close> is \<open>None\<close> when the
  default encoding of the platform encodes the text \<open>s\<close>, and \<open>Some m\<close> when encoding it
  raises \<open>UnicodeEncodeError\<close> with \<open>str(e) = m\<close>. For the \<open>teleport\<close> functions \<open>Inl m\<close> is an exception \<open>e\<close> with \<open>str(e) = m\<close> and
  \<open>Inr v\<close> the returned string. \<open>run_install\<close> is given what the config file holds on
  disk, which the installed command reads. \<open>os_remove\<close> answers \<open>None\<close> when the file was
  removed. \<open>askstring\<close> answers \<open>None\<close> when the dialog was cancelled.
\<close>

record 'e world =
  uuid_file :: "string option"
  token_file :: "string option"
  config_file :: "string option"
  env :: 'e
  trace :: "event list"

definition emit :: "event \<Rightarrow> 'e world \<Rightarrow> 'e world" where
  "emit ev w = w\<lparr>trace := trace w @ [ev]\<rparr>"





definition call_uninstall :: "'e ext \<Rightarrow> 'e world \<Rightarrow> run_result \<times> 'e world" where
  "call_uninstall X w =
     (case run_uninstall X (env w) of (r, e') \<Rightarrow> (r, emit Run_uninstall (w\<lparr>env := e'\<rparr>)))"

definition call_install :: "'e ext \<Rightarrow> 'e world \<Rightarrow> run_result \<times> 'e world" where
  "call_install X w =
     (case run_install X (config_file w) (env w) of
        (r, e') \<Rightarrow> (r, emit (Run_install (config_file w)) (w\<lparr>env := e'\<rparr>)))"

definition call_sc_query :: "'e ext \<Rightarrow> 'e world \<Rightarrow> run_result \<times> 'e world" where
  "call_sc_query X w =
     (case run_sc_query X (env w) of (r, e') \<Rightarrow> (r, emit Run_sc_query (w\<lparr>env := e'\<rparr>)))"


definition call_askyesno :: "'e ext \<Rightarrow> 'e world \<Rightarrow> bool \<times> 'e world" where
  "call_askyesno X w =
     (case askyesno X (env w) of (r, e') \<Rightarrow> (r, emit Askyesno (w\<lparr>env := e'\<rparr>)))"

definition sleep :: "binary64 \<Rightarrow> 'e world \<Rightarrow> 'e world" where
  "sleep d w = emit (Sleep d) w"

section \<open>is_tunnel_active\<close>

text \<open>
  One pass through the body of the \<open>for\<close> loop either returns from the function or falls
  through to the \<open>time.sleep(delay)\<close> that ends the body.
\<close>

datatype 'a flow = Return 'a | Fallthrough

definition query_attempt :: "'e ext \<Rightarrow> 'e world \<Rightarrow> bool flow \<times> 'e world" where
  "query_attempt X w =
     (case call_sc_query X w of
        (Completed returncode stdout stderr, w1) \<Rightarrow>
          (let output = lower stdout
           in if returncode = 0 then
                (if str_in ''running'' output then (Return True, w1)
                 else if str_in ''stopped'' output \<or> str_in ''1  stopped'' output
                   then (Return False, w1)
                 else (Return False, w1))
              else (Return False, w1))
      | (Raised (TimeoutExpired m), w1) \<Rightarrow>
          (Return False, emit (Log_warning ''Could not query service'') w1)
      | (Raised (FileNotFoundError m), w1) \<Rightarrow>
          (Return False, emit (Log_warning ''Could not query service'') w1)
      | (Raised (OtherException m), w1) \<Rightarrow>
          (Return False, emit (Log_warning (''Tunnel check failed: '' @ m)) w1))"

fun attempts :: "'e ext \<Rightarrow> nat \<Rightarrow> binary64 \<Rightarrow> 'e world \<Rightarrow> bool \<times> 'e world" where
  "attempts X 0 delay w = (False, w)"
| "attempts X (Suc n) delay w =
     (case query_attempt X w of
        (Return b, w1) \<Rightarrow> (b, w1)
      | (Fallthrough, w1) \<Rightarrow> attempts X n delay (sleep delay w1))"

text \<open>\<open>range(retries)\<close> is empty for \<open>retries \<le> 0\<close>.\<close>

definition is_tunnel_active :: "'e ext \<Rightarrow> int \<Rightarrow> binary64 \<Rightarrow> 'e world \<Rightarrow> bool \<times> 'e world" where
  "is_tunnel_active X retries delay w = attempts X (nat retries) delay w"

section \<open>generate_config\<close>






section \<open>activate_tunnel and deactivate_tunnel\<close>

text \<open>
  \<open>Inl e\<close> is an exception that leaves the function: both functions catch
  \<open>CalledProcessError\<close> only, which \<open>subprocess.run\<close> raises with \<open>check=True\<close> on a
  return code other than 0. The handler calls \<open>e.stderr.decode()\<close>; when that raises, the
  \<open>UnicodeDecodeError\<close> leaves the function too.
\<close>

definition activate_tunnel :: "'e ext \<Rightarrow> 'e world \<Rightarrow> (exn + bool \<times> string) \<times> 'e world" where
  "activate_tunnel X w =
     (if config_file w = None then (Inr (False, ''No config found. Generate one first.''), w)
      else
        (case call_uninstall X w of
           (Raised e, w1) \<Rightarrow> (Inl e, w1)
         | (Completed rc0 out0 err0, w1) \<Rightarrow>
             (case call_install X w1 of
                (Raised e, w2) \<Rightarrow> (Inl e, w2)
              | (Completed returncode stdout stderr, w2) \<Rightarrow>
                  (if returncode = 0 then (Inr (True, ''Tunnel activated!''), w2)
                   else
                     (case stderr of
                        Undecodable m \<Rightarrow> (Inl (OtherException m), w2)
                      | Decodes text \<Rightarrow> (Inr (False, ''Activation failed: '' @ text), w2))))))"

text \<open>
  The \<open>while elapsed < max_wait\<close> loop of \<open>deactivate_tunnel\<close>. \<open>is_tunnel_active()\<close> is
  called with its defaults \<open>retries=3, delay=1.0\<close>. A run of the loop that never ends is
  \<open>None\<close>.
\<close>

partial_function (option) poll_loop ::
  "'e ext \<Rightarrow> binary64 \<Rightarrow> 'e world \<Rightarrow> ((bool \<times> string) \<times> 'e world) option" where
  "poll_loop X elapsed w =
     (if fl_less elapsed max_wait then
        (case is_tunnel_active X 3 fl_one w of
           (active, w1) \<Rightarrow>
             (if \<not> active then Some ((True, ''Tunnel deactivated!''), w1)
              else poll_loop X (fl_add elapsed poll_interval) (sleep poll_interval w1)))
      else Some ((True, ''Tunnel deactivation requested (status may take a moment to update)''), w))"

definition deactivate_tunnel ::
  "'e ext \<Rightarrow> 'e world \<Rightarrow> ((exn + bool \<times> string) \<times> 'e world) option" where
  "deactivate_tunnel X w =
     (case call_uninstall X w of
        (Raised e, w1) \<Rightarrow> Some (Inl e, w1)
      | (Completed returncode stdout stderr, w1) \<Rightarrow>
          (if returncode = 0 then
             (case poll_loop X fl_zero w1 of
                None \<Rightarrow> None
              | Some (r, w2) \<Rightarrow> Some (Inr r, w2))
           else
             (case stderr of
                Undecodable m \<Rightarrow> Some (Inl (OtherException m), w1)
              | Decodes text \<Rightarrow>
                  (if str_in ''not found'' (lower text)
                   then Some (Inr (False, ''Tunnel not active.''), w1)
                   else Some (Inr (False, ''Deactivation failed: '' @ text), w1)))))"

section \<open>The dialogs and the menu actions\<close>




text \<open>
  The guard of \<open>on_disconnect\<close> is \<open>if not is_tunnel_active:\<close>. It names the function
  and does not call it; a function object is true.
\<close>

definition function_object_truth :: bool where
  "function_object_truth = True"

definition on_disconnect ::
  "'e ext \<Rightarrow> 'e world \<Rightarrow> ((exn + bool \<times> string) \<times> 'e world) option" where
  "on_disconnect X w =
     (if \<not> function_object_truth then
        Some (Inr (False, ''No Teleport Tunnel is active''),
              emit (Showerror ''Error'' ''No Teleport Tunnel is active'') w)
      else
        (case deactivate_tunnel X w of
           None \<Rightarrow> None
         | Some (Inl e, w1) \<Rightarrow> Some (Inl e, w1)
         | Some (Inr (success, msg), w1) \<Rightarrow>
             Some (Inr (success, msg),
                   emit (Showinfo ''Tunnel'' (if success then msg else ''Error: '' @ msg)) w1)))"

definition slot_content :: "slot \<Rightarrow> 'e world \<Rightarrow> string option" where
  "slot_content s w =
     (case s of UUID_FILE \<Rightarrow> uuid_file w | TOKEN_FILE \<Rightarrow> token_file w | CONFIG_PATH \<Rightarrow> config_file w)"

definition clear_slot :: "slot \<Rightarrow> 'e world \<Rightarrow> 'e world" where
  "clear_slot s w =
     (case s of
        UUID_FILE \<Rightarrow> w\<lparr>uuid_file := None\<rparr>
      | TOKEN_FILE \<Rightarrow> w\<lparr>token_file := None\<rparr>
      | CONFIG_PATH \<Rightarrow> w\<lparr>config_file := None\<rparr>)"

text \<open>\<open>if os.path.exists(F): os.remove(F)\<close>; \<open>Some e\<close> is the exception of
  \<open>os.remove\<close>.\<close>

definition remove_if_exists :: "'e ext \<Rightarrow> slot \<Rightarrow> 'e world \<Rightarrow> exn option \<times> 'e world" where
  "remove_if_exists X s w =
     (if slot_content s w = None then (None, w)
      else
        (case os_remove X s (env w) of
           (Some e, e') \<Rightarrow> (Some e, emit (Remove s) (w\<lparr>env := e'\<rparr>))
         | (None, e') \<Rightarrow> (None, clear_slot s (emit (Remove s) (w\<lparr>env := e'\<rparr>)))))"

text \<open>The three removals of the \<open>try\<close> block of \<open>on_delete_config\<close>, in the order of
  the source.\<close>

definition remove_files :: "'e ext \<Rightarrow> 'e world \<Rightarrow> exn option \<times> 'e world" where
  "remove_files X w =
     (case remove_if_exists X TOKEN_FILE w of
        (Some e, w1) \<Rightarrow> (Some e, w1)
      | (None, w1) \<Rightarrow>
          (case remove_if_exists X UUID_FILE w1 of
             (Some e, w2) \<Rightarrow> (Some e, w2)
           | (None, w2) \<Rightarrow> remove_if_exists X CONFIG_PATH w2))"

definition deletion_failed :: "exn \<Rightarrow> 'e world \<Rightarrow> (bool \<times> string) option \<times> 'e world" where
  "deletion_failed e w =
     (Some (False, ''Error while deleting configuration''),
      emit (Showerror ''Error'' (''Deletion failed: '' @ str_exn e)) w)"

definition on_delete_config ::
  "'e ext \<Rightarrow> 'e world \<Rightarrow> ((bool \<times> string) option \<times> 'e world) option" where
  "on_delete_config X w =
     (case call_askyesno X w of
        (False, w0) \<Rightarrow> Some (None, w0)
      | (True, w0) \<Rightarrow>
          (case deactivate_tunnel X w0 of
             None \<Rightarrow> None
           | Some (Inl e, w1) \<Rightarrow> Some (deletion_failed e w1)
           | Some (Inr r, w1) \<Rightarrow>
               (case remove_files X w1 of
                  (Some e, w2) \<Rightarrow> Some (deletion_failed e w2)
                | (None, w2) \<Rightarrow>
                    Some (Some (True, ''Configuration Deleted''),
                          emit (Showinfo ''Deleted''
                                 ''Configuration deleted. You can now enter a new PIN.'') w2))))"

section \<open>Observations on traces\<close>

definition queries :: "event list \<Rightarrow> nat" where
  "queries evs = length (filter (\<lambda>ev. ev = Run_sc_query) evs)"

fun sleeps :: "event list \<Rightarrow> binary64 list" where
  "sleeps [] = []"
| "sleeps (Sleep d # evs) = d # sleeps evs"
| "sleeps (ev # evs) = sleeps evs"

fun removals :: "event list \<Rightarrow> slot list" where
  "removals [] = []"
| "removals (Remove s # evs) = s # removals evs"
| "removals (ev # evs) = removals evs"

section \<open>The operations other than reset\<close>




section \<open>Sample environments\<close>

text \<open>An environment without state that gives the same answers every time.\<close>

definition const_ext :: "run_result \<Rightarrow> run_result \<Rightarrow> run_result \<Rightarrow> unit ext" where
  "const_ext un ins q =
     \<lparr>platform = Posix,
      encode_error = (\<lambda>s. None),
      generate_client_hint = (\<lambda>e. (Inr ''hint'', e)),
      get_device_token = (\<lambda>h p e. (Inr ''token'', e)),
      connect_device = (\<lambda>t e. (Inr ''config'', e)),
      run_uninstall = (\<lambda>e. (un, e)),
      run_install = (\<lambda>c e. (ins, e)),
      run_sc_query = (\<lambda>e. (q, e)),
      os_remove = (\<lambda>s e. (None, e)),
      askstring = (\<lambda>e. (Some ''AB123'', e)),
      askyesno = (\<lambda>e. (True, e))\<rparr>"

definition world0 :: "unit world" where
  "world0 = \<lparr>uuid_file = None, token_file = None, config_file = None, env = (), trace = []\<rparr>"

definition ok :: run_result where
  "ok = Completed 0 [] (Decodes [])"

definition not_found :: run_result where
  "not_found = Completed 1 [] (Decodes ''Tunnel service is Not Found'')"

definition running :: run_result where
  "running = Completed 0 ''STATE : 4  RUNNING'' (Decodes [])"

definition stopped :: run_result where
  "stopped = Completed 0 ''STATE : 1  STOPPED'' (Decodes [])"

text \<open>
  A service manager whose state is the config of the installed service, if any: removal
  fails with "not found" when none is installed, installation fails when one is
  installed already. The state of the environment is the state of the manager and a
  counter of the client hints generated so far.
\<close>

definition mgr_uninstall :: "string option \<times> nat \<Rightarrow> run_result \<times> (string option \<times> nat)" where
  "mgr_uninstall e =
     (case fst e of None \<Rightarrow> (not_found, e) | Some c \<Rightarrow> (ok, (None, snd e)))"

definition mgr_install ::
  "string option \<Rightarrow> string option \<times> nat \<Rightarrow> run_result \<times> (string option \<times> nat)" where
  "mgr_install conf e =
     (case fst e of
        Some c \<Rightarrow> (Completed 1 [] (Decodes ''Tunnel already installed and running''), e)
      | None \<Rightarrow>
          (case conf of
             None \<Rightarrow> (Completed 1 [] (Decodes ''Unable to open config''), e)
           | Some c \<Rightarrow> (ok, (Some c, snd e))))"

definition mgr_query :: "string option \<times> nat \<Rightarrow> run_result \<times> (string option \<times> nat)" where
  "mgr_query e =
     (case fst e of
        None \<Rightarrow> (Completed 1060 ''FAILED 1060'' (Decodes []), e)
      | Some c \<Rightarrow> (running, e))"

definition mgr_ext :: "(string option \<times> nat) ext" where
  "mgr_ext =
     \<lparr>platform = Windows,
      encode_error = (\<lambda>s. None),
      generate_client_hint = (\<lambda>e. (Inr (replicate (Suc (snd e)) CHR ''h''), (fst e, Suc (snd e)))),
      get_device_token = (\<lambda>h p e. (Inr (''token-'' @ h), e)),
      connect_device = (\<lambda>t e. (Inr (''config-'' @ t), e)),
      run_uninstall = mgr_uninstall,
      run_install = mgr_install,
      run_sc_query = mgr_query,
      os_remove = (\<lambda>s e. (None, e)),
      askstring = (\<lambda>e. (Some ''AB123'', e)),
      askyesno = (\<lambda>e. (True, e))\<rparr>"

definition mgr_world :: "string option \<Rightarrow> (string option \<times> nat) world" where
  "mgr_world conf =
     \<lparr>uuid_file = None, token_file = None, config_file = conf, env = (None, 0), trace = []\<rparr>"

text \<open>All three files present; an environment in which the token file cannot be
  removed.\<close>

definition all_present :: "unit world" where
  "all_present = world0\<lparr>uuid_file := Some ''hint'', token_file := Some ''token'',
                        config_file := Some ''config''\<rparr>"

definition locked_token :: "unit ext" where
  "locked_token =
     (const_ext not_found ok stopped)
       \<lparr>os_remove := \<lambda>s e. (if s = TOKEN_FILE then Some (OtherException ''Access is denied'') else None, e)\<rparr>"

text \<open>The manager of \<open>mgr_ext\<close>, except that removal is refused and leaves the service
  as it is.\<close>

definition stuck_ext :: "(string option \<times> nat) ext" where
  "stuck_ext =
     mgr_ext\<lparr>run_uninstall := \<lambda>e. (Completed 1 [] (Decodes ''Access is denied''), e)\<rparr>"



section \<open>The status query\<close>

lemma query_attempt_result:
  "fst (query_attempt X w) =
     Return (case fst (run_sc_query X (env w)) of
               Completed rc out err \<Rightarrow> rc = 0 \<and> str_in ''running'' (lower out)
             | Raised e \<Rightarrow> False)"
  by (auto simp: query_attempt_def call_sc_query_def Let_def
           split: prod.splits run_result.splits exn.splits)

lemma query_attempt_trace:
  "trace (snd (query_attempt X w)) =
     trace w @ Run_sc_query #
       (case fst (run_sc_query X (env w)) of
          Completed rc out err \<Rightarrow> []
        | Raised (TimeoutExpired m) \<Rightarrow> [Log_warning ''Could not query service'']
        | Raised (FileNotFoundError m) \<Rightarrow> [Log_warning ''Could not query service'']
        | Raised (OtherException m) \<Rightarrow> [Log_warning (''Tunnel check failed: '' @ m)])"
  by (auto simp: query_attempt_def call_sc_query_def Let_def emit_def
           split: prod.splits run_result.splits exn.splits)

lemma query_attempt_files:
  "uuid_file (snd (query_attempt X w)) = uuid_file w \<and>
   token_file (snd (query_attempt X w)) = token_file w \<and>
   config_file (snd (query_attempt X w)) = config_file w"
  by (auto simp: query_attempt_def call_sc_query_def Let_def emit_def
           split: prod.splits run_result.splits exn.splits)

lemma attempts_Suc_eq:
  "attempts X (Suc n) d w =
     (case fst (run_sc_query X (env w)) of
        Completed rc out err \<Rightarrow> rc = 0 \<and> str_in ''running'' (lower out)
      | Raised e \<Rightarrow> False, snd (query_attempt X w))"
  using query_attempt_result[of X w]
  by (cases "query_attempt X w") (auto split: flow.splits)

lemma attempts_files:
  "uuid_file (snd (attempts X n d w)) = uuid_file w \<and>
   token_file (snd (attempts X n d w)) = token_file w \<and>
   config_file (snd (attempts X n d w)) = config_file w"
  by (cases n) (simp_all add: attempts_Suc_eq query_attempt_files del: attempts.simps(2))

lemma attempts_events:
  "\<exists>evs. trace (snd (attempts X n d w)) = trace w @ evs \<and> queries evs \<le> n \<and> queries evs \<le> 1 \<and>
         sleeps evs = replicate (queries evs - 1) d \<and> (fst (attempts X n d w) \<longrightarrow> 0 < queries evs)"
proof (cases n)
  case 0
  then show ?thesis by (simp add: queries_def)
next
  case (Suc k)
  show ?thesis unfolding Suc attempts_Suc_eq
    by (auto simp: query_attempt_trace queries_def split: run_result.splits exn.splits)
qed

text \<open>
  C3, as the code has it. \<open>is_tunnel_active\<close> returns a \<open>bool\<close>: with at least one attempt
  allowed, the result is \<open>True\<close> exactly when the query completes with return code 0 and
  "running" occurs in its lower-cased output; a stopped, not-found or other report, a
  timeout, a missing binary and any other exception all give \<open>False\<close>. An exception is
  logged as a warning after the query and is not raised.
\<close>

theorem is_tunnel_active_two_state:
  assumes "0 < retries"
  shows "fst (is_tunnel_active X retries delay w) =
           (case fst (run_sc_query X (env w)) of
              Completed rc out err \<Rightarrow> rc = 0 \<and> str_in ''running'' (lower out)
            | Raised e \<Rightarrow> False) \<and>
         trace (snd (is_tunnel_active X retries delay w)) =
           trace w @ Run_sc_query #
             (case fst (run_sc_query X (env w)) of
                Completed rc out err \<Rightarrow> []
              | Raised (TimeoutExpired m) \<Rightarrow> [Log_warning ''Could not query service'']
              | Raised (FileNotFoundError m) \<Rightarrow> [Log_warning ''Could not query service'']
              | Raised (OtherException m) \<Rightarrow> [Log_warning (''Tunnel check failed: '' @ m)])"
proof -
  from assms obtain n where n: "nat retries = Suc n"
    by (cases "nat retries") auto
  show ?thesis
    unfolding is_tunnel_active_def n attempts_Suc_eq
    by (simp add: query_attempt_trace)
qed

theorem is_tunnel_active_two_state_witness:
  "(0::int) < 3 \<and>
   fst (is_tunnel_active (const_ext ok ok running) 3 fl_one world0) =
     (case fst (run_sc_query (const_ext ok ok running) (env world0)) of
        Completed rc out err \<Rightarrow> rc = 0 \<and> str_in ''running'' (lower out)
      | Raised e \<Rightarrow> False) \<and>
   fst (is_tunnel_active (const_ext ok ok running) 3 fl_one world0)"
proof -
  have "fst (is_tunnel_active (const_ext ok ok running) 3 fl_one world0)"
    by code_simp
  with is_tunnel_active_two_state [of 3 "const_ext ok ok running" fl_one world0]
  show ?thesis by simp
qed

text \<open>
  C3, as stated, fails: a timeout of the query and a definite "stopped" report give the same
  result, \<open>False\<close>; there is no third value.
\<close>

theorem is_tunnel_active_timeout_counterexample:
  "fst (is_tunnel_active (const_ext ok ok (Raised (TimeoutExpired ''timed out''))) 3 fl_one world0) =
     fst (is_tunnel_active (const_ext ok ok stopped) 3 fl_one world0) \<and>
   fst (is_tunnel_active (const_ext ok ok (Raised (TimeoutExpired ''timed out''))) 3 fl_one world0) =
     False"
  by code_simp

text \<open>
  C4. A call with four attempts allowed and a delay of 0.8, where the status query times
  out: the monitor makes one query, logs the warning and returns \<open>False\<close> at once. The
  three attempts left are not made and no delay elapses, because every path through the
  body of the loop returns; the \<open>time.sleep(delay)\<close> under the comment "retry after
  delay" is never reached.
\<close>

theorem is_tunnel_active_single_attempt:
  "is_tunnel_active (const_ext ok ok (Raised (TimeoutExpired ''timed out''))) 4 poll_interval world0 =
     (False, world0\<lparr>trace := [Run_sc_query, Log_warning ''Could not query service'']\<rparr>) \<and>
   queries [Run_sc_query, Log_warning ''Could not query service''] = 1 \<and>
   sleeps [Run_sc_query, Log_warning ''Could not query service''] = []"
  by code_simp

section \<open>Deactivation\<close>

lemma queries_append: "queries (a @ b) = queries a + queries b"
  by (simp add: queries_def)

lemma sleeps_append: "sleeps (a @ b) = sleeps a @ sleeps b"
  by (induction a rule: sleeps.induct) simp_all

lemma is_tunnel_active_events:
  "\<exists>evs. trace (snd (is_tunnel_active X retries delay w)) = trace w @ evs \<and>
         queries evs \<le> 1 \<and> sleeps evs = []"
proof -
  obtain evs where e: "trace (snd (attempts X (nat retries) delay w)) = trace w @ evs"
    "queries evs \<le> 1" "sleeps evs = replicate (queries evs - 1) delay"
    using attempts_events [of X "nat retries" delay w] by blast
  then have "sleeps evs = []" by simp
  with e show ?thesis unfolding is_tunnel_active_def by blast
qed

lemma is_tunnel_active_files:
  "uuid_file (snd (is_tunnel_active X retries delay w)) = uuid_file w \<and>
   token_file (snd (is_tunnel_active X retries delay w)) = token_file w \<and>
   config_file (snd (is_tunnel_active X retries delay w)) = config_file w"
  unfolding is_tunnel_active_def by (rule attempts_files)

lemma poll_loop_stop:
  "\<not> fl_less e max_wait \<Longrightarrow>
   poll_loop X e w =
     Some ((True, ''Tunnel deactivation requested (status may take a moment to update)''), w)"
  by (subst poll_loop.simps) simp

lemma poll_loop_step:
  assumes lt: "fl_less e max_wait"
    and nxt: "\<And>w. \<exists>r w' evs. poll_loop X (fl_add e poll_interval) w = Some ((True, r), w') \<and>
                uuid_file w' = uuid_file w \<and> token_file w' = token_file w \<and>
                config_file w' = config_file w \<and>
                trace w' = trace w @ evs \<and> queries evs \<le> n \<and> length (sleeps evs) \<le> n"
  shows "\<exists>r w' evs. poll_loop X e w = Some ((True, r), w') \<and>
           uuid_file w' = uuid_file w \<and> token_file w' = token_file w \<and>
           config_file w' = config_file w \<and>
           trace w' = trace w @ evs \<and> queries evs \<le> n + 1 \<and> length (sleeps evs) \<le> n + 1"
proof -
  obtain active w1 where a: "is_tunnel_active X 3 fl_one w = (active, w1)"
    by (cases "is_tunnel_active X 3 fl_one w")
  obtain evs1 where e1: "trace w1 = trace w @ evs1" "queries evs1 \<le> 1" "sleeps evs1 = []"
    using is_tunnel_active_events [of X 3 fl_one w] a by auto
  have f1: "uuid_file w1 = uuid_file w" "token_file w1 = token_file w"
    "config_file w1 = config_file w"
    using is_tunnel_active_files [of X 3 fl_one w] a by auto
  have unfold: "poll_loop X e w =
      (if \<not> active then Some ((True, ''Tunnel deactivated!''), w1)
       else poll_loop X (fl_add e poll_interval) (sleep poll_interval w1))"
    by (subst poll_loop.simps) (simp add: lt a)
  show ?thesis
  proof (cases active)
    case False
    with unfold e1 f1 show ?thesis by auto
  next
    case True
    let ?w2 = "sleep poll_interval w1"
    obtain r w' evs where n: "poll_loop X (fl_add e poll_interval) ?w2 = Some ((True, r), w')"
      "uuid_file w' = uuid_file ?w2" "token_file w' = token_file ?w2"
      "config_file w' = config_file ?w2"
      "trace w' = trace ?w2 @ evs" "queries evs \<le> n" "length (sleeps evs) \<le> n"
      using nxt [of ?w2] by blast
    have tr: "trace w' = trace w @ (evs1 @ Sleep poll_interval # evs)"
      using n(5) e1(1) by (simp add: sleep_def emit_def)
    have q: "queries (evs1 @ Sleep poll_interval # evs) \<le> n + 1"
      using e1(2) n(6) by (simp add: queries_def)
    have s: "length (sleeps (evs1 @ Sleep poll_interval # evs)) \<le> n + 1"
      using e1(3) n(7) by (simp add: sleeps_append)
    have f: "uuid_file w' = uuid_file w" "token_file w' = token_file w"
      "config_file w' = config_file w"
      using n(2-4) f1 by (simp_all add: sleep_def emit_def)
    from unfold True n(1) tr q s f show ?thesis by auto
  qed
qed

lemma elapsed_values:
  "fl_add fl_zero poll_interval = (7205759403792794, - 53)"
  "fl_add (7205759403792794, - 53) poll_interval = (7205759403792794, - 52)"
  "fl_add (7205759403792794, - 52) poll_interval = (5404319552844596, - 51)"
  "fl_add (5404319552844596, - 51) poll_interval = (7205759403792794, - 51)"
  "fl_add (7205759403792794, - 51) poll_interval = (4503599627370496, - 50)"
  "fl_add (4503599627370496, - 50) poll_interval = (5404319552844595, - 50)"
  "fl_add (5404319552844595, - 50) poll_interval = (6305039478318694, - 50)"
  "fl_add (6305039478318694, - 50) poll_interval = (7205759403792793, - 50)"
  "fl_add (7205759403792793, - 50) poll_interval = (8106479329266892, - 50)"
  "fl_add (8106479329266892, - 50) poll_interval = (9007199254740991, - 50)"
  "fl_add (9007199254740991, - 50) poll_interval = (4953959590107545, - 49)"
  by code_simp+

lemma elapsed_below:
  "fl_less fl_zero max_wait"
  "fl_less (7205759403792794, - 53) max_wait"
  "fl_less (7205759403792794, - 52) max_wait"
  "fl_less (5404319552844596, - 51) max_wait"
  "fl_less (7205759403792794, - 51) max_wait"
  "fl_less (4503599627370496, - 50) max_wait"
  "fl_less (5404319552844595, - 50) max_wait"
  "fl_less (6305039478318694, - 50) max_wait"
  "fl_less (7205759403792793, - 50) max_wait"
  "fl_less (8106479329266892, - 50) max_wait"
  "fl_less (9007199254740991, - 50) max_wait"
  "\<not> fl_less (4953959590107545, - 49) max_wait"
  by code_simp+

text \<open>The loop returns from every world, with success, after at most 11 polls and 11
  sleeps, and leaves the files as they are.\<close>

lemma poll_loop_returns:
  fixes X :: "'e ext"
  shows "\<exists>r w' evs. poll_loop X fl_zero w = Some ((True, r), w') \<and>
        uuid_file w' = uuid_file w \<and> token_file w' = token_file w \<and>
        config_file w' = config_file w \<and>
        trace w' = trace w @ evs \<and> queries evs \<le> 11 \<and> length (sleeps evs) \<le> 11"
proof -
  have s11: "\<And>w::'e world. \<exists>r w' evs. poll_loop X (4953959590107545, - 49) w = Some ((True, r), w') \<and>
        uuid_file w' = uuid_file w \<and> token_file w' = token_file w \<and>
        config_file w' = config_file w \<and>
        trace w' = trace w @ evs \<and> queries evs \<le> 0 \<and> length (sleeps evs) \<le> 0"
    by (simp add: poll_loop_stop elapsed_below queries_def)
  have s10: "\<exists>r w' evs. poll_loop X (9007199254740991, - 50) w = Some ((True, r), w') \<and>
        uuid_file w' = uuid_file w \<and> token_file w' = token_file w \<and>
        config_file w' = config_file w \<and>
        trace w' = trace w @ evs \<and> queries evs \<le> 1 \<and> length (sleeps evs) \<le> 1" for w
    using poll_loop_step [of "(9007199254740991, - 50)" X 0 w, OF elapsed_below(11)] s11
    unfolding elapsed_values by (simp add: eval_nat_numeral)
  have s9: "\<exists>r w' evs. poll_loop X (8106479329266892, - 50) w = Some ((True, r), w') \<and>
        uuid_file w' = uuid_file w \<and> token_file w' = token_file w \<and>
        config_file w' = config_file w \<and>
        trace w' = trace w @ evs \<and> queries evs \<le> 2 \<and> length (sleeps evs) \<le> 2" for w
    using poll_loop_step [of "(8106479329266892, - 50)" X 1 w, OF elapsed_below(10)] s10
    unfolding elapsed_values by (simp add: eval_nat_numeral)
  have s8: "\<exists>r w' evs. poll_loop X (7205759403792793, - 50) w = Some ((True, r), w') \<and>
        uuid_file w' = uuid_file w \<and> token_file w' = token_file w \<and>
        config_file w' = config_file w \<and>
        trace w' = trace w @ evs \<and> queries evs \<le> 3 \<and> length (sleeps evs) \<le> 3" for w
    using poll_loop_step [of "(7205759403792793, - 50)" X 2 w, OF elapsed_below(9)] s9
    unfolding elapsed_values by (simp add: eval_nat_numeral)
  have s7: "\<exists>r w' evs. poll_loop X (6305039478318694, - 50) w = Some ((True, r), w') \<and>
        uuid_file w' = uuid_file w \<and> token_file w' = token_file w \<and>
        config_file w' = config_file w \<and>
        trace w' = trace w @ evs \<and> queries evs \<le> 4 \<and> length (sleeps evs) \<le> 4" for w
    using poll_loop_step [of "(6305039478318694, - 50)" X 3 w, OF elapsed_below(8)] s8
    unfolding elapsed_values by (simp add: eval_nat_numeral)
  have s6: "\<exists>r w' evs. poll_loop X (5404319552844595, - 50) w = Some ((True, r), w') \<and>
        uuid_file w' = uuid_file w \<and> token_file w' = token_file w \<and>
        config_file w' = config_file w \<and>
        trace w' = trace w @ evs \<and> queries evs \<le> 5 \<and> length (sleeps evs) \<le> 5" for w
    using poll_loop_step [of "(5404319552844595, - 50)" X 4 w, OF elapsed_below(7)] s7
    unfolding elapsed_values by (simp add: eval_nat_numeral)
  have s5: "\<exists>r w' evs. poll_loop X (4503599627370496, - 50) w = Some ((True, r), w') \<and>
        uuid_file w' = uuid_file w \<and> token_file w' = token_file w \<and>
        config_file w' = config_file w \<and>
        trace w' = trace w @ evs \<and> queries evs \<le> 6 \<and> length (sleeps evs) \<le> 6" for w
    using poll_loop_step [of "(4503599627370496, - 50)" X 5 w, OF elapsed_below(6)] s6
    unfolding elapsed_values by (simp add: eval_nat_numeral)
  have s4: "\<exists>r w' evs. poll_loop X (7205759403792794, - 51) w = Some ((True, r), w') \<and>
        uuid_file w' = uuid_file w \<and> token_file w' = token_file w \<and>
        config_file w' = config_file w \<and>
        trace w' = trace w @ evs \<and> queries evs \<le> 7 \<and> length (sleeps evs) \<le> 7" for w
    using poll_loop_step [of "(7205759403792794, - 51)" X 6 w, OF elapsed_below(5)] s5
    unfolding elapsed_values by (simp add: eval_nat_numeral)
  have s3: "\<exists>r w' evs. poll_loop X (5404319552844596, - 51) w = Some ((True, r), w') \<and>
        uuid_file w' = uuid_file w \<and> token_file w' = token_file w \<and>
        config_file w' = config_file w \<and>
        trace w' = trace w @ evs \<and> queries evs \<le> 8 \<and> length (sleeps evs) \<le> 8" for w
    using poll_loop_step [of "(5404319552844596, - 51)" X 7 w, OF elapsed_below(4)] s4
    unfolding elapsed_values by (simp add: eval_nat_numeral)
  have s2: "\<exists>r w' evs. poll_loop X (7205759403792794, - 52) w = Some ((True, r), w') \<and>
        uuid_file w' = uuid_file w \<and> token_file w' = token_file w \<and>
        config_file w' = config_file w \<and>
        trace w' = trace w @ evs \<and> queries evs \<le> 9 \<and> length (sleeps evs) \<le> 9" for w
    using poll_loop_step [of "(7205759403792794, - 52)" X 8 w, OF elapsed_below(3)] s3
    unfolding elapsed_values by (simp add: eval_nat_numeral)
  have s1: "\<exists>r w' evs. poll_loop X (7205759403792794, - 53) w = Some ((True, r), w') \<and>
        uuid_file w' = uuid_file w \<and> token_file w' = token_file w \<and>
        config_file w' = config_file w \<and>
        trace w' = trace w @ evs \<and> queries evs \<le> 10 \<and> length (sleeps evs) \<le> 10" for w
    using poll_loop_step [of "(7205759403792794, - 53)" X 9 w, OF elapsed_below(2)] s2
    unfolding elapsed_values by (simp add: eval_nat_numeral)
  have s0: "\<exists>r w' evs. poll_loop X fl_zero w = Some ((True, r), w') \<and>
        uuid_file w' = uuid_file w \<and> token_file w' = token_file w \<and>
        config_file w' = config_file w \<and>
        trace w' = trace w @ evs \<and> queries evs \<le> 11 \<and> length (sleeps evs) \<le> 11" for w
    using poll_loop_step [of "fl_zero" X 10 w, OF elapsed_below(1)] s1
    unfolding elapsed_values by (simp add: eval_nat_numeral)
  from s0 show ?thesis .
qed

lemma call_uninstall_eq:
  "run_uninstall X (env w) = (r, e') \<Longrightarrow>
   call_uninstall X w = (r, emit Run_uninstall (w\<lparr>env := e'\<rparr>))"
  by (simp add: call_uninstall_def)

lemma deactivate_tunnel_returns:
  "\<exists>r w'. deactivate_tunnel X w = Some (r, w') \<and>
          uuid_file w' = uuid_file w \<and> token_file w' = token_file w \<and>
          config_file w' = config_file w \<and>
          (\<forall>e. r = Inl e \<longleftrightarrow>
             fst (run_uninstall X (env w)) = Raised e \<or>
             (\<exists>rc out m. fst (run_uninstall X (env w)) = Completed rc out (Undecodable m) \<and>
                rc \<noteq> 0 \<and> e = OtherException m))"
proof -
  obtain res e' where u: "run_uninstall X (env w) = (res, e')"
    by (cases "run_uninstall X (env w)")
  let ?w1 = "emit Run_uninstall (w\<lparr>env := e'\<rparr>)"
  have c: "call_uninstall X w = (res, ?w1)"
    using u by (rule call_uninstall_eq)
  have f: "uuid_file ?w1 = uuid_file w" "token_file ?w1 = token_file w"
    "config_file ?w1 = config_file w"
    by (simp_all add: emit_def)
  obtain r w' where p: "poll_loop X fl_zero ?w1 = Some ((True, r), w')"
    "uuid_file w' = uuid_file ?w1" "token_file w' = token_file ?w1"
    "config_file w' = config_file ?w1"
    using poll_loop_returns [of X ?w1] by blast
  show ?thesis
  proof (cases res)
    case (Raised e)
    then show ?thesis using u c f by (simp add: deactivate_tunnel_def)
  next
    case (Completed rc out err)
    show ?thesis
    proof (cases "rc = 0")
      case True
      then show ?thesis using Completed u c p f by (simp add: deactivate_tunnel_def)
    next
      case False
      then show ?thesis
        using Completed u c f by (cases err) (auto simp: deactivate_tunnel_def)
    qed
  qed
qed




text \<open>
  C2. Disconnect where no tunnel is installed and the status query would report
  "stopped": \<open>on_disconnect\<close> starts the removal command at once. No status query is made
  and the guard message "No Teleport Tunnel is active" is not shown; the user sees the
  outcome of \<open>deactivate_tunnel\<close>.
\<close>

theorem on_disconnect_no_status_query:
  "map_option (\<lambda>(r, w'). (r, trace w')) (on_disconnect (const_ext not_found ok stopped) world0) =
     Some (Inr (False, ''Tunnel not active.''),
           [Run_uninstall, Showinfo ''Tunnel'' ''Error: Tunnel not active.''])"
  by code_simp

lemma unit_env: "w\<lparr>env := ()\<rparr> = (w :: unit world)"
  by (cases w) simp

lemma running_report: "str_in ''running'' (lower ''STATE : 4  RUNNING'')"
  by code_simp

lemma is_tunnel_active_running:
  "is_tunnel_active (const_ext ok ok running) 3 fl_one w = (True, emit Run_sc_query w)"
proof -
  have n: "nat 3 = Suc 2" by simp
  show ?thesis
    unfolding is_tunnel_active_def n attempts_Suc_eq
    by (simp add: const_ext_def running_def running_report query_attempt_def
          call_sc_query_def unit_env)
qed

lemma poll_loop_running:
  "fl_less e max_wait \<Longrightarrow>
   poll_loop (const_ext ok ok running) e w =
   poll_loop (const_ext ok ok running) (fl_add e poll_interval)
     (sleep poll_interval (emit Run_sc_query w))"
  by (subst poll_loop.simps) (simp add: is_tunnel_active_running)

text \<open>
  C5. The removal command is acknowledged and every status query reports "running": the
  loop polls 11 times and sleeps 11 times 0.8 before it gives up, since the tenth sum of
  0.8 in binary64 is \<open>9007199254740991 * 2^-50\<close>, just below 8.0.
\<close>

theorem deactivate_tunnel_eleven_polls:
  "map_option (\<lambda>(r, w'). (r, queries (trace w'), sleeps (trace w')))
     (deactivate_tunnel (const_ext ok ok running) world0) =
   Some (Inr (True, ''Tunnel deactivation requested (status may take a moment to update)''),
         11, replicate 11 poll_interval)"
proof -
  have u: "call_uninstall (const_ext ok ok running) world0 =
             (Completed 0 [] (Decodes []), emit Run_uninstall world0)"
    by (simp add: call_uninstall_def const_ext_def ok_def unit_env)
  show ?thesis
    unfolding deactivate_tunnel_def u
    by (simp add: poll_loop_running poll_loop_stop elapsed_below elapsed_values
          emit_def sleep_def world0_def queries_def eval_nat_numeral)
qed

section \<open>Tokens\<close>
















section \<open>Activation\<close>

lemma call_install_eq:
  "run_install X (config_file w) (env w) = (r, e') \<Longrightarrow>
   call_install X w = (r, emit (Run_install (config_file w)) (w\<lparr>env := e'\<rparr>))"
  by (simp add: call_install_def)

lemma activate_tunnel_files:
  "uuid_file (snd (activate_tunnel X w)) = uuid_file w \<and>
   token_file (snd (activate_tunnel X w)) = token_file w \<and>
   config_file (snd (activate_tunnel X w)) = config_file w"
  by (auto simp: activate_tunnel_def call_uninstall_def call_install_def emit_def
           split: prod.splits run_result.splits captured.splits)

lemma activate_tunnel_no_config:
  "config_file w = None \<Longrightarrow>
   activate_tunnel X w = (Inr (False, ''No config found. Generate one first.''), w)"
  by (simp add: activate_tunnel_def)

text \<open>With a config present and a removal command that completes, whatever its return
  code, the outcome and the next state of the environment are those of the installation
  started in the state the removal leaves.\<close>

lemma activate_tunnel_config:
  assumes "config_file w = Some c"
    and "run_uninstall X (env w) = (Completed rc out err, e1)"
  shows "fst (activate_tunnel X w) =
           (case fst (run_install X (Some c) e1) of
              Raised e \<Rightarrow> Inl e
            | Completed returncode stdout stderr \<Rightarrow>
                if returncode = 0 then Inr (True, ''Tunnel activated!'')
                else (case stderr of
                        Undecodable m \<Rightarrow> Inl (OtherException m)
                      | Decodes text \<Rightarrow> Inr (False, ''Activation failed: '' @ text))) \<and>
         env (snd (activate_tunnel X w)) = snd (run_install X (Some c) e1)"
  using assms
  by (auto simp: activate_tunnel_def call_uninstall_def call_install_def emit_def
           split: prod.splits run_result.splits captured.splits)

text \<open>
  C7, as the code has it. \<open>activate_tunnel\<close> runs the removal command, ignores its
  return code and then installs. Let the manager be any environment in which the removal
  command always completes and leaves no service installed, and in which the answer of
  the installation command and the service it leaves, started where no service is
  installed, depend on the config only. Then a second \<open>activate_tunnel\<close> right after the
  first returns what the first returned and leaves the same service installed: the second
  call never meets the service the first one installed.
\<close>

theorem activate_tunnel_idempotent:
  assumes completes: "\<forall>e. \<exists>rc out err e'. run_uninstall X e = (Completed rc out err, e')"
    and clears: "\<forall>e. installed (snd (run_uninstall X e)) = None"
    and by_config: "\<forall>c e e'. installed e = None \<and> installed e' = None \<longrightarrow>
        fst (run_install X c e) = fst (run_install X c e') \<and>
        installed (snd (run_install X c e)) = installed (snd (run_install X c e'))"
  shows "fst (activate_tunnel X (snd (activate_tunnel X w))) = fst (activate_tunnel X w) \<and>
         installed (env (snd (activate_tunnel X (snd (activate_tunnel X w))))) =
           installed (env (snd (activate_tunnel X w)))"
proof (cases "config_file w")
  case None
  then show ?thesis by (simp add: activate_tunnel_no_config)
next
  case (Some c)
  let ?w1 = "snd (activate_tunnel X w)"
  have c1: "config_file ?w1 = Some c"
    using Some activate_tunnel_files [of X w] by simp
  obtain rc out err e1 where u: "run_uninstall X (env w) = (Completed rc out err, e1)"
    using completes by blast
  obtain rc' out' err' e2 where u': "run_uninstall X (env ?w1) = (Completed rc' out' err', e2)"
    using completes by blast
  have n1: "installed e1 = None"
    using clears [rule_format, of "env w"] u by simp
  have n2: "installed e2 = None"
    using clears [rule_format, of "env ?w1"] u' by simp
  note same = by_config [rule_format, of e2 e1 "Some c", OF conjI [OF n2 n1]]
  show ?thesis
    using activate_tunnel_config [OF Some u] activate_tunnel_config [OF c1 u'] same
    by simp
qed

lemma mgr_completes:
  "\<forall>e. \<exists>rc out err e'. run_uninstall mgr_ext e = (Completed rc out err, e')"
  by (auto simp: mgr_ext_def mgr_uninstall_def not_found_def ok_def split: option.splits)

lemma mgr_clears: "\<forall>e. fst (snd (run_uninstall mgr_ext e)) = None"
  by (auto simp: mgr_ext_def mgr_uninstall_def split: option.splits)

lemma mgr_by_config:
  "\<forall>c e e'. fst e = None \<and> fst e' = None \<longrightarrow>
     fst (run_install mgr_ext c e) = fst (run_install mgr_ext c e') \<and>
     fst (snd (run_install mgr_ext c e)) = fst (snd (run_install mgr_ext c e'))"
  by (auto simp: mgr_ext_def mgr_install_def split: option.splits)

theorem activate_tunnel_idempotent_witness:
  "fst (activate_tunnel mgr_ext (snd (activate_tunnel mgr_ext (mgr_world (Some ''conf''))))) =
     fst (activate_tunnel mgr_ext (mgr_world (Some ''conf''))) \<and>
   fst (env (snd (activate_tunnel mgr_ext (snd (activate_tunnel mgr_ext (mgr_world (Some ''conf''))))))) =
     fst (env (snd (activate_tunnel mgr_ext (mgr_world (Some ''conf''))))) \<and>
   fst (activate_tunnel mgr_ext (mgr_world (Some ''conf''))) = Inr (True, ''Tunnel activated!'') \<and>
   fst (env (snd (activate_tunnel mgr_ext (mgr_world (Some ''conf''))))) = Some ''conf'' \<and>
   fst (run_install mgr_ext (Some ''conf'')
          (env (snd (activate_tunnel mgr_ext (mgr_world (Some ''conf'')))))) =
     Completed 1 [] (Decodes ''Tunnel already installed and running'')"
proof -
  have a: "fst (activate_tunnel mgr_ext (mgr_world (Some ''conf''))) = Inr (True, ''Tunnel activated!'')"
    by code_simp
  have b: "fst (env (snd (activate_tunnel mgr_ext (mgr_world (Some ''conf''))))) = Some ''conf''"
    by code_simp
  have c: "fst (run_install mgr_ext (Some ''conf'')
          (env (snd (activate_tunnel mgr_ext (mgr_world (Some ''conf'')))))) =
     Completed 1 [] (Decodes ''Tunnel already installed and running'')"
    by code_simp
  from activate_tunnel_idempotent [of mgr_ext fst "mgr_world (Some ''conf'')",
      OF mgr_completes mgr_clears mgr_by_config] a b c
  show ?thesis by blast
qed

text \<open>
  C7, as stated, fails: the manager refuses the removal and leaves the service. The first
  call installs the service; the second ignores the failed removal, and its installation
  is rejected because the service is already installed.
\<close>

theorem activate_tunnel_twice_counterexample:
  "fst (activate_tunnel stuck_ext (mgr_world (Some ''conf''))) = Inr (True, ''Tunnel activated!'') \<and>
   fst (activate_tunnel stuck_ext (snd (activate_tunnel stuck_ext (mgr_world (Some ''conf''))))) =
     Inr (False, ''Activation failed: Tunnel already installed and running'')"
  by code_simp

section \<open>Reset\<close>

lemma removals_append: "removals (a @ b) = removals a @ removals b"
  by (induction a rule: removals.induct) simp_all

lemma removals_emit:
  "removals (trace (emit ev w)) = removals (trace w) @ removals [ev]"
  by (simp add: emit_def removals_append)

lemma slot_content_clear:
  "slot_content s' (clear_slot s w) = (if s' = s then None else slot_content s' w)"
  by (cases s; cases s') (simp_all add: slot_content_def clear_slot_def)

lemma trace_clear_slot: "trace (clear_slot s w) = trace w"
  by (cases s) (simp_all add: clear_slot_def)

lemma env_clear_slot: "env (clear_slot s w) = env w"
  by (cases s) (simp_all add: clear_slot_def)

lemma slot_content_emit: "slot_content s (emit ev w) = slot_content s w"
  by (cases s) (simp_all add: slot_content_def emit_def)

lemma slot_content_env: "slot_content s (w\<lparr>env := e\<rparr>) = slot_content s w"
  by (cases s) (simp_all add: slot_content_def)

lemma remove_if_exists_absent:
  "slot_content s w = None \<Longrightarrow> remove_if_exists X s w = (None, w)"
  by (simp add: remove_if_exists_def)

lemma remove_if_exists_removed:
  assumes "slot_content s w \<noteq> None" and "os_remove X s (env w) = (None, e')"
  shows "remove_if_exists X s w = (None, clear_slot s (emit (Remove s) (w\<lparr>env := e'\<rparr>)))"
  unfolding remove_if_exists_def by (simp add: assms)

lemma remove_if_exists_raises:
  assumes "slot_content s w \<noteq> None" and "os_remove X s (env w) = (Some e, e')"
  shows "remove_if_exists X s w = (Some e, emit (Remove s) (w\<lparr>env := e'\<rparr>))"
  unfolding remove_if_exists_def by (simp add: assms)

lemma remove_if_exists_ok:
  assumes "\<forall>s e. fst (os_remove X s e) = None"
  shows "fst (remove_if_exists X s w) = None \<and>
         (\<forall>s'. slot_content s' (snd (remove_if_exists X s w)) =
                (if s' = s then None else slot_content s' w)) \<and>
         removals (trace (snd (remove_if_exists X s w))) =
           removals (trace w) @ (if slot_content s w = None then [] else [s])"
proof (cases "slot_content s w = None")
  case True
  then show ?thesis by (simp add: remove_if_exists_absent)
next
  case False
  obtain r e' where o: "os_remove X s (env w) = (r, e')"
    by (cases "os_remove X s (env w)")
  from assms have "fst (os_remove X s (env w)) = None" by blast
  with o have "os_remove X s (env w) = (None, e')" by simp
  from remove_if_exists_removed [OF False this] show ?thesis
    by (simp add: False slot_content_clear slot_content_emit slot_content_env
          trace_clear_slot removals_emit)
qed

lemma remove_files_ok:
  assumes "\<forall>s e. fst (os_remove X s e) = None"
  shows "fst (remove_files X w) = None \<and>
         uuid_file (snd (remove_files X w)) = None \<and>
         token_file (snd (remove_files X w)) = None \<and>
         config_file (snd (remove_files X w)) = None \<and>
         removals (trace (snd (remove_files X w))) =
           removals (trace w) @
             filter (\<lambda>s. slot_content s w \<noteq> None) [TOKEN_FILE, UUID_FILE, CONFIG_PATH]"
proof -
  define w1 where "w1 = snd (remove_if_exists X TOKEN_FILE w)"
  define w2 where "w2 = snd (remove_if_exists X UUID_FILE w1)"
  define w3 where "w3 = snd (remove_if_exists X CONFIG_PATH w2)"
  note r1 = remove_if_exists_ok [OF assms, of TOKEN_FILE w, folded w1_def]
  note r2 = remove_if_exists_ok [OF assms, of UUID_FILE w1, folded w2_def]
  note r3 = remove_if_exists_ok [OF assms, of CONFIG_PATH w2, folded w3_def]
  have 1: "remove_if_exists X TOKEN_FILE w = (None, w1)"
    using r1 by (simp add: w1_def prod_eq_iff)
  have 2: "remove_if_exists X UUID_FILE w1 = (None, w2)"
    using r2 by (simp add: w2_def prod_eq_iff)
  have 3: "remove_if_exists X CONFIG_PATH w2 = (None, w3)"
    using r3 by (simp add: w3_def prod_eq_iff)
  have rf: "remove_files X w = (None, w3)"
    by (simp add: remove_files_def 1 2 3)
  have c1: "slot_content s' w1 = (if s' = TOKEN_FILE then None else slot_content s' w)" for s'
    using r1 by simp
  have c2: "slot_content s' w2 = (if s' = UUID_FILE then None else slot_content s' w1)" for s'
    using r2 by simp
  have c3: "slot_content s' w3 = (if s' = CONFIG_PATH then None else slot_content s' w2)" for s'
    using r3 by simp
  have z: "slot_content TOKEN_FILE w3 = None" "slot_content UUID_FILE w3 = None"
    "slot_content CONFIG_PATH w3 = None"
    by (simp_all add: c1 c2 c3)
  have t: "removals (trace w3) =
      removals (trace w) @ filter (\<lambda>s. slot_content s w \<noteq> None) [TOKEN_FILE, UUID_FILE, CONFIG_PATH]"
    using r1 r2 r3 by (simp add: c1 c2)
  show ?thesis
    using z t by (simp add: rf slot_content_def)
qed

lemma remove_files_token_fails:
  assumes "token_file w \<noteq> None"
    and "os_remove X TOKEN_FILE (env w) = (Some e, e')"
  shows "remove_files X w = (Some e, emit (Remove TOKEN_FILE) (w\<lparr>env := e'\<rparr>))"
proof -
  have "slot_content TOKEN_FILE w \<noteq> None"
    using assms(1) by (simp add: slot_content_def)
  from remove_if_exists_raises [OF this assms(2)] show ?thesis
    by (simp add: remove_files_def)
qed

lemma remove_files_identity_fails:
  assumes "token_file w \<noteq> None" and "uuid_file w \<noteq> None"
    and "os_remove X TOKEN_FILE (env w) = (None, e1)"
    and "os_remove X UUID_FILE e1 = (Some e, e2)"
  shows "remove_files X w =
           (Some e, emit (Remove UUID_FILE)
                      ((clear_slot TOKEN_FILE (emit (Remove TOKEN_FILE) (w\<lparr>env := e1\<rparr>)))\<lparr>env := e2\<rparr>))"
proof -
  let ?w1 = "clear_slot TOKEN_FILE (emit (Remove TOKEN_FILE) (w\<lparr>env := e1\<rparr>))"
  have "slot_content TOKEN_FILE w \<noteq> None"
    using assms(1) by (simp add: slot_content_def)
  from remove_if_exists_removed [OF this assms(3)]
  have 1: "remove_if_exists X TOKEN_FILE w = (None, ?w1)" .
  have p: "slot_content UUID_FILE ?w1 \<noteq> None"
    using assms(2) by (simp add: slot_content_def clear_slot_def emit_def)
  have e: "os_remove X UUID_FILE (env ?w1) = (Some e, e2)"
    using assms(4) by (simp add: clear_slot_def emit_def)
  from remove_if_exists_raises [OF p e] 1 show ?thesis
    by (simp add: remove_files_def)
qed

lemma reset_files_before:
  assumes "call_askyesno X w = (b, w0)" and "deactivate_tunnel X w0 = Some (d, w1)"
  shows "uuid_file w1 = uuid_file w \<and> token_file w1 = token_file w \<and>
         config_file w1 = config_file w"
proof -
  have "uuid_file w0 = uuid_file w \<and> token_file w0 = token_file w \<and>
        config_file w0 = config_file w"
    using assms(1) by (auto simp: call_askyesno_def emit_def split: prod.splits)
  with deactivate_tunnel_returns [of X w0] assms(2) show ?thesis by auto
qed

text \<open>Reset after the user has confirmed and the deactivation has returned a pair, when
  no \<open>os.remove\<close> raises.\<close>

lemma on_delete_config_success:
  assumes ask: "call_askyesno X w = (True, w0)"
    and deact: "deactivate_tunnel X w0 = Some (Inr r, w1)"
    and removed: "\<forall>s e. fst (os_remove X s e) = None"
  shows "\<exists>w'. on_delete_config X w = Some (Some (True, ''Configuration Deleted''), w') \<and>
           uuid_file w' = None \<and> token_file w' = None \<and> config_file w' = None \<and>
           removals (trace w') =
             removals (trace w1) @
               filter (\<lambda>s. slot_content s w \<noteq> None) [TOKEN_FILE, UUID_FILE, CONFIG_PATH]"
proof -
  define w2 where "w2 = snd (remove_files X w1)"
  note rf = remove_files_ok [OF removed, of w1, folded w2_def]
  have f: "remove_files X w1 = (None, w2)"
    using rf by (simp add: w2_def prod_eq_iff)
  have same: "slot_content s w1 = slot_content s w" for s
    using reset_files_before [OF ask deact] by (cases s) (simp_all add: slot_content_def)
  have "on_delete_config X w =
          Some (Some (True, ''Configuration Deleted''),
                emit (Showinfo ''Deleted''
                       ''Configuration deleted. You can now enter a new PIN.'') w2)"
    by (simp add: on_delete_config_def ask deact f)
  then show ?thesis
    using rf by (simp add: emit_def removals_append same)
qed

lemma on_delete_config_aborts:
  assumes ask: "call_askyesno X w = (True, w0)"
    and deact: "deactivate_tunnel X w0 = Some (Inr r, w1)"
    and fails: "remove_files X w1 = (Some e, w2)"
  shows "on_delete_config X w =
           Some (Some (False, ''Error while deleting configuration''),
                 emit (Showerror ''Error'' (''Deletion failed: '' @ str_exn e)) w2)"
  by (simp add: on_delete_config_def ask deact fails deletion_failed_def)

text \<open>
  C6, as the code has it. Once the user has confirmed, reset deactivates and then removes
  the files that exist, one after the other inside one \<open>try\<close> block, in the order token,
  identity, config. Let the deactivation have answered. When it raised, reset reports
  failure and removes nothing. When it returned and no \<open>os.remove\<close> raises, reset reports
  success, all three files end absent, and the removals made are those of the files that
  were present, in that order. When it returned and the removal of the token file raises,
  reset reports failure, no other removal is attempted and the three files stay as they
  were; when the token file is removed and the removal of the identity file raises, reset
  reports failure, the token file is gone, and the identity and the config stay, the
  removal of the config not being attempted.
\<close>

theorem reset_deletes_in_sequence:
  assumes ask: "call_askyesno X w = (True, w0)"
    and deact: "deactivate_tunnel X w0 = Some (d, w1)"
  shows
    "(\<forall>e. d = Inl e \<longrightarrow>
        (\<exists>w'. on_delete_config X w = Some (Some (False, ''Error while deleting configuration''), w') \<and>
              uuid_file w' = uuid_file w \<and> token_file w' = token_file w \<and>
              config_file w' = config_file w \<and>
              removals (trace w') = removals (trace w1))) \<and>
     ((\<exists>r. d = Inr r) \<and> (\<forall>s e. fst (os_remove X s e) = None) \<longrightarrow>
        (\<exists>w'. on_delete_config X w = Some (Some (True, ''Configuration Deleted''), w') \<and>
              uuid_file w' = None \<and> token_file w' = None \<and> config_file w' = None \<and>
              removals (trace w') =
                removals (trace w1) @
                  filter (\<lambda>s. slot_content s w \<noteq> None) [TOKEN_FILE, UUID_FILE, CONFIG_PATH])) \<and>
     (\<forall>e e1. (\<exists>r. d = Inr r) \<and> token_file w \<noteq> None \<and>
        os_remove X TOKEN_FILE (env w1) = (Some e, e1) \<longrightarrow>
        (\<exists>w'. on_delete_config X w = Some (Some (False, ''Error while deleting configuration''), w') \<and>
              uuid_file w' = uuid_file w \<and> token_file w' = token_file w \<and>
              config_file w' = config_file w \<and>
              removals (trace w') = removals (trace w1) @ [TOKEN_FILE])) \<and>
     (\<forall>e e1 e2. (\<exists>r. d = Inr r) \<and> token_file w \<noteq> None \<and> uuid_file w \<noteq> None \<and>
        os_remove X TOKEN_FILE (env w1) = (None, e1) \<and>
        os_remove X UUID_FILE e1 = (Some e, e2) \<longrightarrow>
        (\<exists>w'. on_delete_config X w = Some (Some (False, ''Error while deleting configuration''), w') \<and>
              uuid_file w' = uuid_file w \<and> token_file w' = None \<and>
              config_file w' = config_file w \<and>
              removals (trace w') = removals (trace w1) @ [TOKEN_FILE, UUID_FILE]))"
proof (intro conjI allI impI)
  note same = reset_files_before [OF ask deact]
  {
    fix e assume "d = Inl e"
    then have "on_delete_config X w = Some (deletion_failed e w1)"
      using ask deact by (simp add: on_delete_config_def)
    then show "\<exists>w'. on_delete_config X w = Some (Some (False, ''Error while deleting configuration''), w') \<and>
              uuid_file w' = uuid_file w \<and> token_file w' = token_file w \<and>
              config_file w' = config_file w \<and>
              removals (trace w') = removals (trace w1)"
      using same by (simp add: deletion_failed_def emit_def removals_append)
  }
  {
    assume "(\<exists>r. d = Inr r) \<and> (\<forall>s e. fst (os_remove X s e) = None)"
    then obtain r where r: "d = Inr r" and removed: "\<forall>s e. fst (os_remove X s e) = None"
      by blast
    from on_delete_config_success [OF ask deact [unfolded r] removed]
    show "\<exists>w'. on_delete_config X w = Some (Some (True, ''Configuration Deleted''), w') \<and>
              uuid_file w' = None \<and> token_file w' = None \<and> config_file w' = None \<and>
              removals (trace w') =
                removals (trace w1) @
                  filter (\<lambda>s. slot_content s w \<noteq> None) [TOKEN_FILE, UUID_FILE, CONFIG_PATH]" .
  }
  {
    fix e e1
    assume "(\<exists>r. d = Inr r) \<and> token_file w \<noteq> None \<and>
        os_remove X TOKEN_FILE (env w1) = (Some e, e1)"
    then obtain r where r: "d = Inr r" and t: "token_file w1 \<noteq> None"
      and o: "os_remove X TOKEN_FILE (env w1) = (Some e, e1)"
      using same by auto
    from on_delete_config_aborts [OF ask deact [unfolded r] remove_files_token_fails [OF t o]]
    show "\<exists>w'. on_delete_config X w = Some (Some (False, ''Error while deleting configuration''), w') \<and>
              uuid_file w' = uuid_file w \<and> token_file w' = token_file w \<and>
              config_file w' = config_file w \<and>
              removals (trace w') = removals (trace w1) @ [TOKEN_FILE]"
      using same by (simp add: emit_def removals_append)
  }
  {
    fix e e1 e2
    assume "(\<exists>r. d = Inr r) \<and> token_file w \<noteq> None \<and> uuid_file w \<noteq> None \<and>
        os_remove X TOKEN_FILE (env w1) = (None, e1) \<and>
        os_remove X UUID_FILE e1 = (Some e, e2)"
    then obtain r where r: "d = Inr r" and t: "token_file w1 \<noteq> None"
      and u: "uuid_file w1 \<noteq> None"
      and o1: "os_remove X TOKEN_FILE (env w1) = (None, e1)"
      and o2: "os_remove X UUID_FILE e1 = (Some e, e2)"
      using same by auto
    from on_delete_config_aborts [OF ask deact [unfolded r]
        remove_files_identity_fails [OF t u o1 o2]]
    show "\<exists>w'. on_delete_config X w = Some (Some (False, ''Error while deleting configuration''), w') \<and>
              uuid_file w' = uuid_file w \<and> token_file w' = None \<and>
              config_file w' = config_file w \<and>
              removals (trace w') = removals (trace w1) @ [TOKEN_FILE, UUID_FILE]"
      using same by (simp add: emit_def clear_slot_def removals_append)
  }
qed

lemma not_found_report: "str_in ''not found'' (lower ''Tunnel service is Not Found'')"
  by code_simp

theorem reset_deletes_in_sequence_witness:
  "(\<exists>w'. on_delete_config (const_ext not_found ok stopped) all_present =
            Some (Some (True, ''Configuration Deleted''), w') \<and>
          uuid_file w' = None \<and> token_file w' = None \<and> config_file w' = None \<and>
          removals (trace w') = [TOKEN_FILE, UUID_FILE, CONFIG_PATH]) \<and>
   (\<exists>w'. on_delete_config locked_token all_present =
            Some (Some (False, ''Error while deleting configuration''), w') \<and>
          uuid_file w' = Some ''hint'' \<and> token_file w' = Some ''token'' \<and>
          config_file w' = Some ''config'' \<and>
          removals (trace w') = [TOKEN_FILE])"
proof -
  let ?w0 = "emit Askyesno all_present"
  let ?w1 = "emit Run_uninstall ?w0"
  have ask: "call_askyesno (const_ext not_found ok stopped) all_present = (True, ?w0)"
    by (simp add: call_askyesno_def const_ext_def unit_env)
  have deact: "deactivate_tunnel (const_ext not_found ok stopped) ?w0 =
                 Some (Inr (False, ''Tunnel not active.''), ?w1)"
    by (simp add: deactivate_tunnel_def call_uninstall_def const_ext_def not_found_def
          unit_env not_found_report)
  have ask': "call_askyesno locked_token all_present = (True, ?w0)"
    by (simp add: call_askyesno_def locked_token_def const_ext_def unit_env)
  have deact': "deactivate_tunnel locked_token ?w0 =
                 Some (Inr (False, ''Tunnel not active.''), ?w1)"
    by (simp add: deactivate_tunnel_def call_uninstall_def locked_token_def const_ext_def
          not_found_def unit_env not_found_report)
  have none: "removals (trace ?w1) = []"
    by (simp add: emit_def all_present_def world0_def)
  have present: "filter (\<lambda>s. slot_content s all_present \<noteq> None)
                   [TOKEN_FILE, UUID_FILE, CONFIG_PATH] = [TOKEN_FILE, UUID_FILE, CONFIG_PATH]"
    by (simp add: slot_content_def all_present_def world0_def)
  have removed: "\<forall>s e. fst (os_remove (const_ext not_found ok stopped) s e) = None"
    by (simp add: const_ext_def)
  have locked: "os_remove locked_token TOKEN_FILE (env ?w1) =
                  (Some (OtherException ''Access is denied''), ())"
    by (simp add: locked_token_def)
  have files: "uuid_file all_present = Some ''hint''" "token_file all_present = Some ''token''"
    "config_file all_present = Some ''config''"
    by (simp_all add: all_present_def world0_def)
  from reset_deletes_in_sequence [OF ask deact] removed
  have a: "\<exists>w'. on_delete_config (const_ext not_found ok stopped) all_present =
            Some (Some (True, ''Configuration Deleted''), w') \<and>
          uuid_file w' = None \<and> token_file w' = None \<and> config_file w' = None \<and>
          removals (trace w') = [TOKEN_FILE, UUID_FILE, CONFIG_PATH]"
    unfolding none present by (simp only: append_Nil) blast
  from reset_deletes_in_sequence [OF ask' deact'] locked
  have b: "\<exists>w'. on_delete_config locked_token all_present =
            Some (Some (False, ''Error while deleting configuration''), w') \<and>
          uuid_file w' = Some ''hint'' \<and> token_file w' = Some ''token'' \<and>
          config_file w' = Some ''config'' \<and>
          removals (trace w') = [TOKEN_FILE]"
    unfolding none files by (simp only: append_Nil) blast
  from a b show ?thesis ..
qed

text \<open>
  C6, as stated, fails: all three files are present, the user confirms, and the removal of
  the token file raises. Reset reports failure; the identity and the config are still
  there and their removal was not attempted.
\<close>

theorem reset_aborts_counterexample:
  "map_option (\<lambda>(r, w'). (r, uuid_file w', config_file w', removals (trace w')))
     (on_delete_config locked_token all_present) =
   Some (Some (False, ''Error while deleting configuration''),
         Some ''hint'', Some ''config'', [TOKEN_FILE])"
  by code_simp

section \<open>The identity\<close>



















section \<open>Connect without a token\<close>






end
